theory Spec2Isabelle
  imports Complex_Main
begin

section \<open>Python values and helpers used by \<open>services/vector_db.py\<close>\<close>

text \<open>
  Exceptions are values. \<open>ValueError\<close> and \<open>IndexError\<close> are the two built-in exceptions
  the module's own statements can raise (\<open>range\<close> with step zero, indexing past the end);
  \<open>ExternalError\<close> stands for any exception raised by the embedding service or by the
  vector store, with its message.
\<close>

datatype error = ValueError | IndexError | ExternalError string

text \<open>\<open>str(n)\<close> for a Python int: decimal digits, a leading minus sign when negative.\<close>

definition digit :: "nat \<Rightarrow> char" where
  "digit d = ''0123456789'' ! d"

function str_nat :: "nat \<Rightarrow> string" where
  "str_nat n = (if n < 10 then [digit n] else str_nat (n div 10) @ [digit (n mod 10)])"
  by pat_completeness auto
termination
  by (relation "measure (\<lambda>n. n)") auto

declare str_nat.simps [simp del]

definition str_int :: "int \<Rightarrow> string" where
  "str_int i = (if i < 0 then CHR ''-'' # str_nat (nat (- i)) else str_nat (nat i))"

text \<open>\<open>sep.join(parts)\<close>.\<close>

definition join :: "string \<Rightarrow> string list \<Rightarrow> string" where
  "join sep parts =
     (case parts of [] \<Rightarrow> [] | p # rest \<Rightarrow> foldl (\<lambda>acc q. acc @ sep @ q) p rest)"

text \<open>
  \<open>range(0, stop, step)\<close> as the list it iterates over. A zero step raises
  \<open>ValueError\<close>; with a negative step and a start of 0 the range is empty.
\<close>

function range_from :: "nat \<Rightarrow> nat \<Rightarrow> nat \<Rightarrow> nat list" where
  "range_from i stop step =
     (if step = 0 \<or> stop \<le> i then [] else i # range_from (i + step) stop step)"
  by pat_completeness auto
termination
  by (relation "measure (\<lambda>(i, stop, step). stop - i)") auto

declare range_from.simps [simp del]

definition py_range :: "nat \<Rightarrow> int \<Rightarrow> error + nat list" where
  "py_range stop step =
     (if step = 0 then Inl ValueError
      else if step < 0 then Inr []
      else Inr (range_from 0 stop (nat step)))"

text \<open>The slice \<open>xs[i:j]\<close> for indices \<open>0 \<le> i\<close>, \<open>0 \<le> j\<close>; it never raises.\<close>

definition slice :: "'a list \<Rightarrow> nat \<Rightarrow> nat \<Rightarrow> 'a list" where
  "slice xs i j = take (j - i) (drop i xs)"

section \<open>Document Builder (lines 40-47 of \<open>add_df_to_db_async\<close>)\<close>

text \<open>
  A cell of the table is modelled by what the loop reads of it: \<open>None\<close> when
  \<open>pd.notna(val)\<close> is false (NaN, None, NaT), and \<open>Some s\<close> with \<open>s = str(val)\<close> otherwise.
  A DataFrame is its column labels, its index labels (integers, as for the default
  RangeIndex; \<open>int(i)\<close> is then the identity) and its rows; \<open>iterrows\<close> pairs every index
  label with its row.
\<close>

type_synonym cell = "string option"

record dataframe =
  columns :: "string list"
  index :: "int list"
  rows :: "cell list list"

definition iterrows :: "dataframe \<Rightarrow> (int \<times> cell list) list" where
  "iterrows df = zip (index df) (rows df)"

datatype pyval = PyStr string | PyInt int

type_synonym metadata = "(string \<times> pyval) list"

definition row_values :: "cell list \<Rightarrow> string list" where
  "row_values r = map (\<lambda>val. case val of Some s \<Rightarrow> s | None \<Rightarrow> []) r"

definition row_text :: "string list \<Rightarrow> cell list \<Rightarrow> string" where
  "row_text cols r =
     join '', '' (map (\<lambda>(col, val). col @ '': '' @ val) (zip cols (row_values r)))"

definition doc_id :: "string \<Rightarrow> int \<Rightarrow> string" where
  "doc_id source_name i = source_name @ ''_row'' @ str_int i"

definition doc_meta :: "string \<Rightarrow> int \<Rightarrow> metadata" where
  "doc_meta source_name i = [(''source'', PyStr source_name), (''row'', PyInt i)]"

definition build_docs :: "dataframe \<Rightarrow> string list" where
  "build_docs df = map (\<lambda>(i, r). row_text (columns df) r) (iterrows df)"

definition build_ids :: "dataframe \<Rightarrow> string \<Rightarrow> string list" where
  "build_ids df source_name = map (\<lambda>(i, r). doc_id source_name i) (iterrows df)"

definition build_metas :: "dataframe \<Rightarrow> string \<Rightarrow> metadata list" where
  "build_metas df source_name = map (\<lambda>(i, r). doc_meta source_name i) (iterrows df)"

text \<open>
  The serialisation as the specification words it: one \<open>column: value\<close> field per
  column, an empty value for a missing cell, fields separated by a comma and a space.
\<close>

fun serialize_field :: "string \<times> cell \<Rightarrow> string" where
  "serialize_field (col, None) = col @ '': ''"
| "serialize_field (col, Some v) = col @ '': '' @ v"

fun serialize_record :: "(string \<times> cell) list \<Rightarrow> string" where
  "serialize_record [] = []"
| "serialize_record [f] = serialize_field f"
| "serialize_record (f # g # fs) = serialize_field f @ '', '' @ serialize_record (g # fs)"

section \<open>External collaborators: the embedding service and the vector store\<close>

text \<open>
  Neither \<open>google.generativeai\<close> nor \<open>chromadb\<close> is part of the module, so their
  operations are parameters of the model. An operation either raises (\<open>Inl\<close>) or
  returns (\<open>Inr\<close>); a store operation that raises leaves the store as it was (the
  per-call atomicity the specification delegates to the store). \<open>'c\<close> is the state
  of the persistent client, \<open>'h\<close> a collection handle. The outcome of an asynchronous
  embedding request may depend on its position among the launched tasks.
\<close>

type_synonym embedding = "real list"

record payload =
  add_ids :: "string list"
  add_documents :: "string list"
  add_embeddings :: "embedding list"
  add_metadatas :: "metadata list"

text \<open>
  The answer of \<open>collection.query\<close> is a dict; only its keys \<open>documents\<close> and
  \<open>metadatas\<close> are read. A key may be absent (\<open>None\<close> below); when present its value
  is a list with one inner list per query embedding, a metadata entry being a dict or
  Python's \<open>None\<close>.
\<close>

record query_result =
  res_documents :: "string list list option"
  res_metadatas :: "metadata option list list option"

record ('c, 'h) env =
  embed_content :: "string \<Rightarrow> error + embedding"
  embed_content_async :: "nat \<Rightarrow> string list \<Rightarrow> error + embedding list"
  delete_collection :: "string \<Rightarrow> 'c \<Rightarrow> error + 'c"
  get_or_create_collection :: "string \<Rightarrow> 'c \<Rightarrow> error + 'h \<times> 'c"
  collection_add :: "'h \<Rightarrow> payload \<Rightarrow> 'c \<Rightarrow> error + 'c"
  collection_query :: "'h \<Rightarrow> embedding list \<Rightarrow> int \<Rightarrow> 'c \<Rightarrow> error + query_result"

text \<open>
  The module's state is the client, the process-wide \<open>collection\<close> handle and a
  trace of what the module did to the outside, in program order: every request
  sent to the embedding service, every call on the store and every line printed.
  A call that raises is in the trace too: it was made.
\<close>

datatype msg =
    StartingEmbedding nat
  | AllEmbeddingsProcessed
  | AddedBatch nat
  | TotalRowsAdded nat string
  | ResetDone
  | ResetFailed error

datatype event =
    EmbedContentAsync "string list"
  | CollectionAdd payload
  | DeleteCollection string
  | GetOrCreateCollection string
  | Print msg

record ('c, 'h) state =
  chroma_client :: 'c
  collection :: 'h
  trace :: "event list"

definition emit :: "event list \<Rightarrow> ('c, 'h) state \<Rightarrow> ('c, 'h) state" where
  "emit evs s = s\<lparr>trace := trace s @ evs\<rparr>"

fun add_calls :: "event list \<Rightarrow> payload list" where
  "add_calls [] = []"
| "add_calls (CollectionAdd p # evs) = p # add_calls evs"
| "add_calls (ev # evs) = add_calls evs"

fun embed_calls :: "event list \<Rightarrow> string list list" where
  "embed_calls [] = []"
| "embed_calls (EmbedContentAsync texts # evs) = texts # embed_calls evs"
| "embed_calls (ev # evs) = embed_calls evs"

section \<open>Embedding Client Adapter (lines 17-33)\<close>

definition get_gemini_embedding :: "('c, 'h) env \<Rightarrow> string \<Rightarrow> error + embedding" where
  "get_gemini_embedding env txt = embed_content env txt"

definition get_gemini_embeddings_batch_async ::
  "('c, 'h) env \<Rightarrow> nat \<Rightarrow> string list \<Rightarrow> error + embedding list" where
  "get_gemini_embeddings_batch_async env k texts = embed_content_async env k texts"

section \<open>Ingestion: \<open>add_df_to_db_async\<close> (lines 36-70)\<close>

text \<open>
  Lines 49-53: one task per start index of \<open>range(0, len(docs), batch_size)\<close>, on the
  slice \<open>docs[i:i + batch_size]\<close>. The loop body runs only when the step is positive.
\<close>

definition embedding_tasks :: "string list \<Rightarrow> int \<Rightarrow> error + string list list" where
  "embedding_tasks docs batch_size =
     (case py_range (length docs) batch_size of
        Inl e \<Rightarrow> Inl e
      | Inr starts \<Rightarrow> Inr (map (\<lambda>i. slice docs i (i + nat batch_size)) starts))"

text \<open>
  Line 56: \<open>asyncio.gather\<close> returns the results in the order of its arguments, or
  raises when a task raises. Which failing task's exception it raises depends on
  completion order, which is not modelled: the model reports the one of lowest index.
\<close>

fun gather :: "(error + 'a) list \<Rightarrow> error + 'a list" where
  "gather [] = Inr []"
| "gather (r # rs) =
     (case r of
        Inl e \<Rightarrow> Inl e
      | Inr x \<Rightarrow> (case gather rs of Inl e \<Rightarrow> Inl e | Inr xs \<Rightarrow> Inr (x # xs)))"

definition task_results :: "('c, 'h) env \<Rightarrow> string list list \<Rightarrow> (error + embedding list) list" where
  "task_results env tasks =
     map (\<lambda>(k, texts). get_gemini_embeddings_batch_async env k texts) (enumerate 0 tasks)"

text \<open>Lines 56-59: the join, then the flattening of the per-batch results.\<close>

definition gather_embeddings :: "('c, 'h) env \<Rightarrow> string list list \<Rightarrow> error + embedding list" where
  "gather_embeddings env tasks =
     (case gather (task_results env tasks) of
        Inl e \<Rightarrow> Inl e
      | Inr all_embeddings_results \<Rightarrow> Inr (concat all_embeddings_results))"

text \<open>Lines 62-67: the keyword arguments of one \<open>collection.add\<close> call.\<close>

definition batch_payload ::
  "string list \<Rightarrow> string list \<Rightarrow> embedding list \<Rightarrow> metadata list \<Rightarrow> nat \<Rightarrow> nat \<Rightarrow> payload" where
  "batch_payload ids docs all_embeddings metas batch_size i =
     \<lparr>add_ids = slice ids i (i + batch_size),
      add_documents = slice docs i (i + batch_size),
      add_embeddings = slice all_embeddings i (i + batch_size),
      add_metadatas = slice metas i (i + batch_size)\<rparr>"

text \<open>Lines 61-68: the sequential write loop; an \<open>add\<close> that raises ends it.\<close>

fun add_batches ::
  "('c, 'h) env \<Rightarrow> (nat \<Rightarrow> payload) \<Rightarrow> nat \<Rightarrow> nat list \<Rightarrow> ('c, 'h) state
     \<Rightarrow> (error + unit) \<times> ('c, 'h) state" where
  "add_batches env payload_at batch_size [] s = (Inr (), s)"
| "add_batches env payload_at batch_size (i # starts) s =
     (let s1 = emit [CollectionAdd (payload_at i)] s in
      case collection_add env (collection s1) (payload_at i) (chroma_client s1) of
        Inl e \<Rightarrow> (Inl e, s1)
      | Inr c \<Rightarrow>
          add_batches env payload_at batch_size starts
            (emit [Print (AddedBatch (i div batch_size + 1))] (s1\<lparr>chroma_client := c\<rparr>)))"

definition add_df_to_db_async ::
  "('c, 'h) env \<Rightarrow> dataframe \<Rightarrow> string \<Rightarrow> int \<Rightarrow> ('c, 'h) state
     \<Rightarrow> (error + unit) \<times> ('c, 'h) state" where
  "add_df_to_db_async env df source_name batch_size s =
     (let docs = build_docs df;
          ids = build_ids df source_name;
          metas = build_metas df source_name
      in case embedding_tasks docs batch_size of
           Inl e \<Rightarrow> (Inl e, s)
         | Inr tasks \<Rightarrow>
            (let s1 = emit (Print (StartingEmbedding (length tasks)) # map EmbedContentAsync tasks) s
             in case gather_embeddings env tasks of
                  Inl e \<Rightarrow> (Inl e, s1)
                | Inr all_embeddings \<Rightarrow>
                   (let s2 = emit [Print AllEmbeddingsProcessed] s1
                    in case py_range (length ids) batch_size of
                         Inl e \<Rightarrow> (Inl e, s2)
                       | Inr starts \<Rightarrow>
                          (case add_batches env
                                  (batch_payload ids docs all_embeddings metas (nat batch_size))
                                  (nat batch_size) starts s2 of
                             (Inl e, s3) \<Rightarrow> (Inl e, s3)
                           | (Inr u, s3) \<Rightarrow>
                               (Inr (), emit [Print (TotalRowsAdded (length docs) source_name)] s3)))))"

text \<open>Lines 73-75: the synchronous entry point runs the coroutine with the default batch size.\<close>

definition add_df_to_db ::
  "('c, 'h) env \<Rightarrow> dataframe \<Rightarrow> string \<Rightarrow> ('c, 'h) state \<Rightarrow> (error + unit) \<times> ('c, 'h) state" where
  "add_df_to_db env df source_name s = add_df_to_db_async env df source_name 100 s"

text \<open>
  The store after the payloads \<open>ps\<close> have been added in order through handle \<open>h\<close>,
  or the first error: what "committed" means for an opaque store.
\<close>

fun committed :: "('c, 'h) env \<Rightarrow> 'h \<Rightarrow> payload list \<Rightarrow> 'c \<Rightarrow> error + 'c" where
  "committed env h [] c = Inr c"
| "committed env h (p # ps) c =
     (case collection_add env h p c of Inl e \<Rightarrow> Inl e | Inr c' \<Rightarrow> committed env h ps c')"

section \<open>Query Engine: \<open>query_db\<close> (lines 85-103)\<close>

record hit =
  hit_text :: string
  hit_source :: "pyval option"
  hit_row :: "pyval option"

text \<open>\<open>xs[0]\<close>.\<close>

definition first :: "'a list \<Rightarrow> error + 'a" where
  "first xs = (case xs of [] \<Rightarrow> Inl IndexError | x # rest \<Rightarrow> Inr x)"

text \<open>
  Lines 95-102. \<open>metadatas[i]\<close> raises past the end of the list; \<open>meta or {}\<close> replaces
  \<open>None\<close> (and the empty dict) by the empty dict; \<open>dict.get\<close> gives \<open>None\<close> for an absent key.
\<close>

fun build_hits :: "nat \<Rightarrow> string list \<Rightarrow> metadata option list \<Rightarrow> error + hit list" where
  "build_hits i [] metadatas = Inr []"
| "build_hits i (doc # docs) metadatas =
     (if i < length metadatas then
        (let meta = (case metadatas ! i of None \<Rightarrow> [] | Some m \<Rightarrow> m) in
         case build_hits (Suc i) docs metadatas of
           Inl e \<Rightarrow> Inl e
         | Inr hits \<Rightarrow>
             Inr (\<lparr>hit_text = doc, hit_source = map_of meta ''source'', hit_row = map_of meta ''row''\<rparr>
                  # hits))
      else Inl IndexError)"

definition shape_results :: "query_result \<Rightarrow> error + hit list" where
  "shape_results results =
     (case first (case res_documents results of None \<Rightarrow> [[]] | Some d \<Rightarrow> d) of
        Inl e \<Rightarrow> Inl e
      | Inr docs \<Rightarrow>
         (case first (case res_metadatas results of None \<Rightarrow> [[]] | Some m \<Rightarrow> m) of
            Inl e \<Rightarrow> Inl e
          | Inr metadatas \<Rightarrow> build_hits 0 docs metadatas))"

definition query_db :: "('c, 'h) env \<Rightarrow> string \<Rightarrow> int \<Rightarrow> ('c, 'h) state \<Rightarrow> error + hit list" where
  "query_db env question top_k s =
     (case get_gemini_embedding env question of
        Inl e \<Rightarrow> Inl e
      | Inr q_emb \<Rightarrow>
         (case collection_query env (collection s) [q_emb] top_k (chroma_client s) of
            Inl e \<Rightarrow> Inl e
          | Inr results \<Rightarrow> shape_results results))"

section \<open>Collection Lifecycle Manager: \<open>clear_db\<close> (lines 106-114)\<close>

text \<open>The body of the \<open>try\<close> block: delete, then reassign the global handle, then print.\<close>

definition clear_db_try :: "('c, 'h) env \<Rightarrow> ('c, 'h) state \<Rightarrow> (error + unit) \<times> ('c, 'h) state" where
  "clear_db_try env s =
     (let s1 = emit [DeleteCollection ''data_collection''] s in
      case delete_collection env ''data_collection'' (chroma_client s1) of
        Inl e \<Rightarrow> (Inl e, s1)
      | Inr c1 \<Rightarrow>
         (let s2 = emit [GetOrCreateCollection ''data_collection''] (s1\<lparr>chroma_client := c1\<rparr>) in
          case get_or_create_collection env ''data_collection'' (chroma_client s2) of
            Inl e \<Rightarrow> (Inl e, s2)
          | Inr (h, c2) \<Rightarrow>
              (Inr (), emit [Print ResetDone] (s2\<lparr>chroma_client := c2, collection := h\<rparr>))))"

text \<open>\<open>except Exception as e\<close>: every modelled error is caught and printed.\<close>

definition clear_db :: "('c, 'h) env \<Rightarrow> ('c, 'h) state \<Rightarrow> (error + unit) \<times> ('c, 'h) state" where
  "clear_db env s =
     (case clear_db_try env s of
        (Inl e, s') \<Rightarrow> (Inr (), emit [Print (ResetFailed e)] s')
      | (Inr u, s') \<Rightarrow> (Inr (), s'))"

section \<open>A small in-memory store, for evaluating the model on concrete runs\<close>

text \<open>
  The client is a generation number and the payloads held by \<open>data_collection\<close>; a
  handle is the generation it was obtained in. Deleting starts a new generation;
  adding through the current handle appends the payload. The embedding of a text
  is its length.
\<close>

type_synonym mem_client = "nat \<times> payload list"

definition mem_embed :: "string \<Rightarrow> embedding" where
  "mem_embed txt = [real (length txt)]"

definition mem_delete :: "string \<Rightarrow> mem_client \<Rightarrow> error + mem_client" where
  "mem_delete name c = Inr (Suc (fst c), [])"

definition mem_get_or_create :: "string \<Rightarrow> mem_client \<Rightarrow> error + nat \<times> mem_client" where
  "mem_get_or_create name c = Inr (fst c, c)"

definition mem_add :: "nat \<Rightarrow> payload \<Rightarrow> mem_client \<Rightarrow> error + mem_client" where
  "mem_add h p c =
     (if h = fst c then Inr (fst c, snd c @ [p]) else Inl (ExternalError ''stale handle''))"

definition mem_query :: "nat \<Rightarrow> embedding list \<Rightarrow> int \<Rightarrow> mem_client \<Rightarrow> error + query_result" where
  "mem_query h q n c =
     Inr \<lparr>res_documents = Some [take (nat n) (concat (map add_documents (snd c)))],
          res_metadatas = Some [take (nat n) (map Some (concat (map add_metadatas (snd c))))]\<rparr>"

definition mem_env :: "(mem_client, nat) env" where
  "mem_env =
     \<lparr>embed_content = (\<lambda>txt. Inr (mem_embed txt)),
      embed_content_async = (\<lambda>k texts. Inr (map mem_embed texts)),
      delete_collection = mem_delete,
      get_or_create_collection = mem_get_or_create,
      collection_add = mem_add,
      collection_query = mem_query\<rparr>"

definition mem_state :: "(mem_client, nat) state" where
  "mem_state = \<lparr>chroma_client = (0, []), collection = 0, trace = []\<rparr>"

text \<open>The same store behind a service whose second request fails.\<close>

definition failing_embed_env :: "(mem_client, nat) env" where
  "failing_embed_env =
     mem_env\<lparr>embed_content_async :=
       (\<lambda>k texts. if k = 1 then Inl (ExternalError ''quota'') else Inr (map mem_embed texts))\<rparr>"

text \<open>A store that refuses the add call made when it already holds one payload.\<close>

definition failing_add_env :: "(mem_client, nat) env" where
  "failing_add_env =
     mem_env\<lparr>collection_add :=
       (\<lambda>h p c. if length (snd c) = 1 then Inl (ExternalError ''disk full'') else mem_add h p c)\<rparr>"

text \<open>A store whose \<open>delete_collection\<close> raises.\<close>

definition failing_delete_env :: "(mem_client, nat) env" where
  "failing_delete_env =
     mem_env\<lparr>delete_collection := (\<lambda>name c. Inl (ExternalError ''locked''))\<rparr>"

definition sample_df :: dataframe where
  "sample_df =
     \<lparr>columns = [''col1'', ''col2''],
      index = [0, 1, 2],
      rows = [[Some ''0'', Some ''text_0''], [Some ''1'', None], [Some ''2'', Some ''text_2'']]\<rparr>"

text \<open>Further tables: one without rows, one that kept the index label of a row
  selected from a larger table, and the 250-row sample of the module's \<open>__main__\<close>.\<close>

definition empty_df :: dataframe where
  "empty_df = \<lparr>columns = [''col1'', ''col2''], index = [], rows = []\<rparr>"

definition filtered_df :: dataframe where
  "filtered_df = \<lparr>columns = [''col1''], index = [5], rows = [[Some ''x'']]\<rparr>"

definition table_250 :: dataframe where
  "table_250 =
     \<lparr>columns = [''col1'', ''col2''],
      index = map int [0..<250],
      rows = map (\<lambda>i. [Some (str_nat i), Some (''text_'' @ str_nat i)]) [0..<250]\<rparr>"

text \<open>A state whose collection already holds one entry, and a store whose query
  answers two documents, the second without metadata.\<close>

definition loaded_state :: "(mem_client, nat) state" where
  "loaded_state =
     \<lparr>chroma_client =
        (0, [\<lparr>add_ids = [''old.csv_row0''], add_documents = [''col1: 7''],
              add_embeddings = [[7]], add_metadatas = [doc_meta ''old.csv'' 0]\<rparr>]),
      collection = 0, trace = []\<rparr>"

definition sparse_meta_env :: "(mem_client, nat) env" where
  "sparse_meta_env =
     mem_env\<lparr>collection_query :=
       (\<lambda>h q n c. Inr \<lparr>res_documents = Some [[''col1: 7'', ''free text'']],
                         res_metadatas = Some [[Some (doc_meta ''old.csv'' 0), None]]\<rparr>)\<rparr>"

section \<open>Properties\<close>

lemma foldl_join_prefix:
  "foldl (\<lambda>acc q. acc @ sep @ q) (p @ a) qs = p @ foldl (\<lambda>acc q. acc @ sep @ q) a qs"
  by (induction qs arbitrary: a) simp_all

lemma join_Cons2: "join sep (p # q # qs) = p @ sep @ join sep (q # qs)"
proof -
  have "foldl (\<lambda>acc q. acc @ sep @ q) ((p @ sep) @ q) qs
      = (p @ sep) @ foldl (\<lambda>acc q. acc @ sep @ q) q qs"
    by (rule foldl_join_prefix)
  then show ?thesis by (simp add: join_def)
qed

lemma join_single: "join sep [p] = p"
  by (simp add: join_def)

lemma join_Nil: "join sep [] = []"
  by (simp add: join_def)

lemma join_fields:
  "join sep0 (map serialize_field fs) = serialize_record fs" if "sep0 = '', ''"
  using that
proof (induction fs rule: serialize_record.induct)
  case 1
  then show ?case by (simp add: join_Nil)
next
  case (2 f)
  then show ?case by (simp add: join_single)
next
  case (3 f g fs)
  have "join sep0 (map serialize_field (f # g # fs))
      = serialize_field f @ sep0 @ join sep0 (map serialize_field (g # fs))"
    by (simp add: join_Cons2)
  with 3 show ?case by simp
qed

lemma field_of_value:
  "(\<lambda>(col, val). col @ '': '' @ val) (c, case v of Some s \<Rightarrow> s | None \<Rightarrow> []) = serialize_field (c, v)"
  by (cases v) simp_all

lemma fields_zip:
  "map (\<lambda>(col, val). col @ '': '' @ val) (zip cols (row_values r)) = map serialize_field (zip cols r)"
proof (induction cols arbitrary: r)
  case Nil
  then show ?case by simp
next
  case (Cons c cols)
  show ?case
  proof (cases r)
    case Nil
    then show ?thesis by (simp add: row_values_def)
  next
    case (Cons v vs)
    have "map (\<lambda>(col, val). col @ '': '' @ val) (zip cols (row_values vs)) = map serialize_field (zip cols vs)"
      by (rule Cons.IH)
    then show ?thesis using Cons field_of_value [of c v]
      by (simp add: row_values_def)
  qed
qed

text \<open>
  C9. The document text of a record is the comma-separated concatenation of its
  \<open>column: value\<close> fields in column order, and a missing value serialises its column as
  \<open>column: \<close> with an empty value. The second conjunct is the scenario of the
  specification: a record whose middle column is missing.
\<close>

theorem C9_row_text_serialization:
  "row_text cols r = serialize_record (zip cols r)
   \<and> serialize_field (col, None) = col @ '': ''
   \<and> row_text [''a'', ''b'', ''c''] [Some ''1'', None, Some ''x''] = ''a: 1, b: , c: x''"
proof -
  have a: "row_text cols r = serialize_record (zip cols r)"
    unfolding row_text_def fields_zip by (rule join_fields) simp
  have b: "serialize_field (col, None) = col @ '': ''" by simp
  have c: "row_text [''a'', ''b'', ''c''] [Some ''1'', None, Some ''x''] = ''a: 1, b: , c: x''"
    by (simp add: row_text_def row_values_def join_def)
  from a b c show ?thesis by blast
qed

subsection \<open>Batch partitioning\<close>

lemma range_from_step:
  "0 < step \<Longrightarrow> range_from i stop step = (if stop \<le> i then [] else i # range_from (i + step) stop step)"
  by (subst range_from.simps) simp

lemma concat_slices:
  "0 < B \<Longrightarrow> concat (map (\<lambda>i. slice xs i (i + B)) (range_from i (length xs) B)) = drop i xs"
proof (induction i "length xs" B rule: range_from.induct)
  case (1 i step)
  show ?case
  proof (cases "length xs \<le> i")
    case True
    then show ?thesis using 1(2) by (simp add: range_from_step)
  next
    case False
    have ih: "concat (map (\<lambda>i. slice xs i (i + step)) (range_from (i + step) (length xs) step)) = drop (i + step) xs"
      using 1 False by simp
    have "take step (drop i xs) @ drop (i + step) xs = drop i xs"
      by (metis add.commute append_take_drop_id drop_drop)
    then show ?thesis using False 1(2) ih
      by (simp add: range_from_step [of step i] slice_def)
  qed
qed

lemma ceil_less_iff:
  fixes a n B :: nat
  assumes "0 < B"
  shows "a < (n + B - 1) div B \<longleftrightarrow> a * B < n"
proof -
  have "Suc a \<le> (n + B - 1) div B \<longleftrightarrow> Suc a * B \<le> n + B - 1"
    using assms by (simp add: less_eq_div_iff_mult_less_eq)
  also have "\<dots> \<longleftrightarrow> a * B < n" using assms by (cases n) auto
  finally show ?thesis by (simp add: Suc_le_eq)
qed

lemma range_from_closed_aux:
  "0 < B \<Longrightarrow> i = a * B \<Longrightarrow> range_from i n B = map (\<lambda>k. k * B) [a..<(n + B - 1) div B]"
proof (induction i n B arbitrary: a rule: range_from.induct)
  case (1 i stop step)
  show ?case
  proof (cases "stop \<le> i")
    case True
    then have "\<not> a < (stop + step - 1) div step" using ceil_less_iff [OF 1(2)] 1(3) by simp
    then show ?thesis using True 1(2) by (simp add: range_from_step)
  next
    case False
    then have lt: "a < (stop + step - 1) div step" using ceil_less_iff [OF 1(2)] 1(3) by simp
    have "range_from (i + step) stop step = map (\<lambda>k. k * step) [Suc a..<(stop + step - 1) div step]"
    proof (rule 1(1))
      show "\<not> (step = 0 \<or> stop \<le> i)" using False 1(2) by simp
      show "0 < step" by (rule 1(2))
      show "i + step = Suc a * step" using 1(3) by simp
    qed
    then show ?thesis using False 1(2) 1(3) [symmetric] lt
      by (simp add: range_from_step [of step i] upt_conv_Cons)
  qed
qed

lemma range_from_closed:
  "0 < B \<Longrightarrow> range_from 0 n B = map (\<lambda>k. k * B) [0..<(n + B - 1) div B]"
  using range_from_closed_aux [of B 0 0 n] by simp


lemma embedding_tasks_pos:
  assumes "0 < batch_size"
  shows "embedding_tasks docs batch_size =
           Inr (map (\<lambda>k. slice docs (k * nat batch_size) (k * nat batch_size + nat batch_size))
                  [0..<(length docs + nat batch_size - 1) div nat batch_size])"
  using assms by (simp add: embedding_tasks_def py_range_def range_from_closed comp_def)

lemma embedding_tasks_concat:
  assumes "0 < batch_size" and "embedding_tasks docs batch_size = Inr bs"
  shows "concat bs = docs"
proof -
  have "bs = map (\<lambda>i. slice docs i (i + nat batch_size)) (range_from 0 (length docs) (nat batch_size))"
    using assms by (simp add: embedding_tasks_def py_range_def)
  then show ?thesis using concat_slices [of "nat batch_size" docs 0] assms(1) by simp
qed

lemma zip_concat:
  "list_all2 (\<lambda>b r. length r = length b) bs rs \<Longrightarrow>
     zip (concat bs) (concat rs) = concat (map2 zip bs rs)"
  by (induction rule: list_all2_induct) simp_all

lemma gather_embeddings_Inr:
  "gather (task_results env tasks) = Inr rs \<Longrightarrow> gather_embeddings env tasks = Inr (concat rs)"
  by (simp add: gather_embeddings_def)



subsection \<open>Ingestion\<close>

lemma gather_fails:
  "k < length rs \<Longrightarrow> rs ! k = Inl e \<Longrightarrow> \<exists>e'. gather rs = Inl e'"
proof (induction rs arbitrary: k)
  case Nil
  then show ?case by simp
next
  case (Cons r rs)
  show ?case
  proof (cases k)
    case 0
    then show ?thesis using Cons.prems by simp
  next
    case (Suc j)
    then have "\<exists>e'. gather rs = Inl e'" using Cons by simp
    then show ?thesis by (auto split: sum.splits)
  qed
qed

lemma task_results_nth:
  "k < length tasks \<Longrightarrow> task_results env tasks ! k = embed_content_async env k (tasks ! k)"
  by (simp add: task_results_def nth_enumerate_eq get_gemini_embeddings_batch_async_def)

lemma length_task_results: "length (task_results env tasks) = length tasks"
  by (simp add: task_results_def)

lemma gather_embeddings_fails:
  assumes "k < length tasks" and "embed_content_async env k (tasks ! k) = Inl e"
  shows "\<exists>e'. gather_embeddings env tasks = Inl e'"
proof -
  have "\<exists>e'. gather (task_results env tasks) = Inl e'"
    using gather_fails [of k "task_results env tasks" e] assms
    by (simp add: task_results_nth length_task_results)
  then show ?thesis by (auto simp: gather_embeddings_def)
qed

lemma add_calls_append: "add_calls (xs @ ys) = add_calls xs @ add_calls ys"
  by (induction xs rule: add_calls.induct) simp_all

lemma embed_calls_append: "embed_calls (xs @ ys) = embed_calls xs @ embed_calls ys"
  by (induction xs rule: embed_calls.induct) simp_all

lemma add_calls_embeds: "add_calls (map EmbedContentAsync ts) = []"
  by (induction ts) simp_all

lemma embed_calls_embeds: "embed_calls (map EmbedContentAsync ts) = ts"
  by (induction ts) simp_all

lemma emit_simps:
  "chroma_client (emit evs s) = chroma_client s"
  "collection (emit evs s) = collection s"
  "trace (emit evs s) = trace s @ evs"
  by (simp_all add: emit_def)

text \<open>
  C1. If the embedding call of any one batch raises, the ingestion fails, and the
  run makes no \<open>collection.add\<close> call: its trace is the announcement and the
  embedding requests only, and the client and the collection handle are untouched.
\<close>

theorem C1_embedding_failure_aborts_before_write:
  assumes "embedding_tasks (build_docs df) batch_size = Inr tasks"
    and "k < length tasks"
    and "embed_content_async env k (tasks ! k) = Inl e"
  shows "\<exists>e' s'. add_df_to_db_async env df source_name batch_size s = (Inl e', s')
           \<and> trace s' = trace s @ Print (StartingEmbedding (length tasks)) # map EmbedContentAsync tasks
           \<and> add_calls (trace s') = add_calls (trace s)
           \<and> chroma_client s' = chroma_client s
           \<and> collection s' = collection s"
proof -
  obtain e' where g: "gather_embeddings env tasks = Inl e'"
    using gather_embeddings_fails [OF assms(2,3)] by blast
  have "add_df_to_db_async env df source_name batch_size s
          = (Inl e', emit (Print (StartingEmbedding (length tasks)) # map EmbedContentAsync tasks) s)"
    using assms(1) g by (simp add: add_df_to_db_async_def Let_def)
  then show ?thesis
    by (simp add: emit_simps add_calls_append add_calls_embeds)
qed

theorem C1_embedding_failure_aborts_before_write_witness:
  "embedding_tasks (build_docs sample_df) 1
      = Inr [[''col1: 0, col2: text_0''], [''col1: 1, col2: ''], [''col1: 2, col2: text_2'']]
   \<and> embed_content_async failing_embed_env 1 [''col1: 1, col2: ''] = Inl (ExternalError ''quota'')
   \<and> fst (add_df_to_db_async failing_embed_env sample_df ''sample.csv'' 1 mem_state)
        = Inl (ExternalError ''quota'')
   \<and> add_calls (trace (snd (add_df_to_db_async failing_embed_env sample_df ''sample.csv'' 1 mem_state))) = []
   \<and> chroma_client (snd (add_df_to_db_async failing_embed_env sample_df ''sample.csv'' 1 mem_state)) = (0, [])"
proof -
  let ?tasks = "[[''col1: 0, col2: text_0''], [''col1: 1, col2: ''], [''col1: 2, col2: text_2'']]"
  have h1: "embedding_tasks (build_docs sample_df) 1 = Inr ?tasks" by code_simp
  have h2: "(1::nat) < length ?tasks" by simp
  have h3: "embed_content_async failing_embed_env 1 (?tasks ! 1) = Inl (ExternalError ''quota'')"
    by (simp add: failing_embed_env_def)
  have h3': "embed_content_async failing_embed_env 1 [''col1: 1, col2: ''] = Inl (ExternalError ''quota'')"
    by (simp add: failing_embed_env_def)
  have r: "fst (add_df_to_db_async failing_embed_env sample_df ''sample.csv'' 1 mem_state)
        = Inl (ExternalError ''quota'')" by code_simp
  obtain e' s' where
    run: "add_df_to_db_async failing_embed_env sample_df ''sample.csv'' 1 mem_state = (Inl e', s')"
    and adds: "add_calls (trace s') = add_calls (trace mem_state)"
    and cl: "chroma_client s' = chroma_client mem_state"
    using C1_embedding_failure_aborts_before_write [OF h1 h2 h3, of "''sample.csv''" mem_state]
    by blast
  have a: "add_calls (trace (snd (add_df_to_db_async failing_embed_env sample_df ''sample.csv'' 1 mem_state))) = []"
    using run adds by (simp add: mem_state_def)
  have c: "chroma_client (snd (add_df_to_db_async failing_embed_env sample_df ''sample.csv'' 1 mem_state)) = (0, [])"
    using run cl by (simp add: mem_state_def)
  from h1 h3' r a c show ?thesis by blast
qed

lemma committed_append:
  "committed env h (ps @ qs) c =
     (case committed env h ps c of Inl e \<Rightarrow> Inl e | Inr c' \<Rightarrow> committed env h qs c')"
  by (induction ps arbitrary: c) (simp_all split: sum.splits)

lemma add_batches_succeeds:
  "committed env (collection s) (map payload_at starts) (chroma_client s) = Inr c' \<Longrightarrow>
   \<exists>s'. add_batches env payload_at B starts s = (Inr (), s')
      \<and> chroma_client s' = c' \<and> collection s' = collection s
      \<and> add_calls (trace s') = add_calls (trace s) @ map payload_at starts
      \<and> embed_calls (trace s') = embed_calls (trace s)"
proof (induction starts arbitrary: s)
  case Nil
  then show ?case by simp
next
  case (Cons i starts)
  from Cons.prems obtain c1 where
    c1: "collection_add env (collection s) (payload_at i) (chroma_client s) = Inr c1"
    and rest: "committed env (collection s) (map payload_at starts) c1 = Inr c'"
    by (auto split: sum.splits)
  define s1 where "s1 = emit [Print (AddedBatch (i div B + 1))] ((emit [CollectionAdd (payload_at i)] s)\<lparr>chroma_client := c1\<rparr>)"
  have s1_fields: "chroma_client s1 = c1" "collection s1 = collection s"
    "trace s1 = trace s @ [CollectionAdd (payload_at i), Print (AddedBatch (i div B + 1))]"
    by (simp_all add: s1_def emit_def)
  have step: "add_batches env payload_at B (i # starts) s = add_batches env payload_at B starts s1"
    using c1 by (simp add: Let_def emit_simps s1_def)
  from Cons.IH [of s1] rest s1_fields obtain s' where
    "add_batches env payload_at B starts s1 = (Inr (), s')"
    "chroma_client s' = c'" "collection s' = collection s1"
    "add_calls (trace s') = add_calls (trace s1) @ map payload_at starts"
    "embed_calls (trace s') = embed_calls (trace s1)"
    by auto
  then show ?case using step s1_fields
    by (simp add: add_calls_append embed_calls_append)
qed

lemma add_batches_fails:
  "k < length starts \<Longrightarrow>
   committed env (collection s) (map payload_at (take k starts)) (chroma_client s) = Inr ck \<Longrightarrow>
   collection_add env (collection s) (payload_at (starts ! k)) ck = Inl e \<Longrightarrow>
   \<exists>s'. add_batches env payload_at B starts s = (Inl e, s')
      \<and> chroma_client s' = ck \<and> collection s' = collection s
      \<and> add_calls (trace s') = add_calls (trace s) @ map payload_at (take (Suc k) starts)"
proof (induction starts arbitrary: s k)
  case Nil
  then show ?case by simp
next
  case (Cons i starts)
  show ?case
  proof (cases k)
    case 0
    then show ?thesis using Cons.prems
      by (simp add: Let_def emit_simps add_calls_append)
  next
    case (Suc j)
    from Cons.prems Suc obtain c1 where
      c1: "collection_add env (collection s) (payload_at i) (chroma_client s) = Inr c1"
      and rest: "committed env (collection s) (map payload_at (take j starts)) c1 = Inr ck"
      by (auto split: sum.splits)
    define s1 where "s1 = emit [Print (AddedBatch (i div B + 1))] ((emit [CollectionAdd (payload_at i)] s)\<lparr>chroma_client := c1\<rparr>)"
    have s1_fields: "chroma_client s1 = c1" "collection s1 = collection s"
      "trace s1 = trace s @ [CollectionAdd (payload_at i), Print (AddedBatch (i div B + 1))]"
      by (simp_all add: s1_def emit_def)
    have step: "add_batches env payload_at B (i # starts) s = add_batches env payload_at B starts s1"
      using c1 by (simp add: Let_def emit_simps s1_def)
    have "\<exists>s'. add_batches env payload_at B starts s1 = (Inl e, s')
      \<and> chroma_client s' = ck \<and> collection s' = collection s1
      \<and> add_calls (trace s') = add_calls (trace s1) @ map payload_at (take (Suc j) starts)"
    proof (rule Cons.IH)
      show "j < length starts" using Cons.prems(1) Suc by simp
      show "committed env (collection s1) (map payload_at (take j starts)) (chroma_client s1) = Inr ck"
        using rest s1_fields by simp
      show "collection_add env (collection s1) (payload_at (starts ! j)) ck = Inl e"
        using Cons.prems(3) Suc s1_fields by simp
    qed
    then show ?thesis using step s1_fields Suc
      by (auto simp: add_calls_append)
  qed
qed

lemma add_df_succeeds:
  assumes "embedding_tasks (build_docs df) batch_size = Inr tasks"
    and "gather_embeddings env tasks = Inr all_embeddings"
    and "py_range (length (build_ids df source_name)) batch_size = Inr starts"
    and "ps = map (batch_payload (build_ids df source_name) (build_docs df) all_embeddings
                     (build_metas df source_name) (nat batch_size)) starts"
    and "committed env (collection s) ps (chroma_client s) = Inr c'"
  shows "\<exists>s'. add_df_to_db_async env df source_name batch_size s = (Inr (), s')
           \<and> chroma_client s' = c'
           \<and> collection s' = collection s
           \<and> embed_calls (trace s') = embed_calls (trace s) @ tasks
           \<and> add_calls (trace s') = add_calls (trace s) @ ps"
proof -
  define payload_at where "payload_at = batch_payload (build_ids df source_name) (build_docs df)
     all_embeddings (build_metas df source_name) (nat batch_size)"
  define s2 where "s2 = emit [Print AllEmbeddingsProcessed]
     (emit (Print (StartingEmbedding (length tasks)) # map EmbedContentAsync tasks) s)"
  have s2_fields: "chroma_client s2 = chroma_client s" "collection s2 = collection s"
    "add_calls (trace s2) = add_calls (trace s)"
    "embed_calls (trace s2) = embed_calls (trace s) @ tasks"
    by (simp_all add: s2_def emit_simps add_calls_append add_calls_embeds
          embed_calls_append embed_calls_embeds)
  have ps: "ps = map payload_at starts" using assms(4) by (simp add: payload_at_def)
  have "committed env (collection s2) (map payload_at starts) (chroma_client s2) = Inr c'"
    using assms(5) ps s2_fields by simp
  from add_batches_succeeds [OF this, of "nat batch_size"] obtain s3 where
    run: "add_batches env payload_at (nat batch_size) starts s2 = (Inr (), s3)"
    and fields: "chroma_client s3 = c'" "collection s3 = collection s"
      "add_calls (trace s3) = add_calls (trace s) @ ps"
      "embed_calls (trace s3) = embed_calls (trace s) @ tasks"
    using s2_fields ps by auto
  have "add_df_to_db_async env df source_name batch_size s
          = (Inr (), emit [Print (TotalRowsAdded (length (build_docs df)) source_name)] s3)"
    using assms(1,2,3) run
    by (simp add: add_df_to_db_async_def Let_def payload_at_def [symmetric] s2_def [symmetric])
  with fields show ?thesis
    by (simp add: emit_simps add_calls_append embed_calls_append)
qed

text \<open>
  C4. The write loop commits batch after batch and undoes nothing: when the add call
  of batch \<open>k\<close> raises after the adds of batches \<open>0..k-1\<close> succeeded, the ingestion
  fails with that error, the add calls made are those of batches \<open>0..k\<close> in order, and
  the store is left exactly as the \<open>k\<close> successful adds made it.
\<close>

theorem C4_failed_batch_keeps_earlier_batches:
  assumes "embedding_tasks (build_docs df) batch_size = Inr tasks"
    and "gather_embeddings env tasks = Inr all_embeddings"
    and "py_range (length (build_ids df source_name)) batch_size = Inr starts"
    and "ps = map (batch_payload (build_ids df source_name) (build_docs df) all_embeddings
                     (build_metas df source_name) (nat batch_size)) starts"
    and "k < length ps"
    and "committed env (collection s) (take k ps) (chroma_client s) = Inr ck"
    and "collection_add env (collection s) (ps ! k) ck = Inl e"
  shows "\<exists>s'. add_df_to_db_async env df source_name batch_size s = (Inl e, s')
           \<and> chroma_client s' = ck
           \<and> collection s' = collection s
           \<and> add_calls (trace s') = add_calls (trace s) @ take (Suc k) ps"
proof -
  define payload_at where "payload_at = batch_payload (build_ids df source_name) (build_docs df)
     all_embeddings (build_metas df source_name) (nat batch_size)"
  define s2 where "s2 = emit [Print AllEmbeddingsProcessed]
     (emit (Print (StartingEmbedding (length tasks)) # map EmbedContentAsync tasks) s)"
  have s2_fields: "chroma_client s2 = chroma_client s" "collection s2 = collection s"
    "add_calls (trace s2) = add_calls (trace s)"
    by (simp_all add: s2_def emit_simps add_calls_append add_calls_embeds)
  have ps: "ps = map payload_at starts" using assms(4) by (simp add: payload_at_def)
  have "\<exists>s'. add_batches env payload_at (nat batch_size) starts s2 = (Inl e, s')
      \<and> chroma_client s' = ck \<and> collection s' = collection s2
      \<and> add_calls (trace s') = add_calls (trace s2) @ map payload_at (take (Suc k) starts)"
  proof (rule add_batches_fails)
    show "k < length starts" using assms(5) ps by simp
    show "committed env (collection s2) (map payload_at (take k starts)) (chroma_client s2) = Inr ck"
      using assms(6) ps s2_fields by (simp add: take_map)
    show "collection_add env (collection s2) (payload_at (starts ! k)) ck = Inl e"
      using assms(5,7) ps s2_fields by simp
  qed
  then obtain s' where run: "add_batches env payload_at (nat batch_size) starts s2 = (Inl e, s')"
    and fields: "chroma_client s' = ck" "collection s' = collection s"
      "add_calls (trace s') = add_calls (trace s) @ take (Suc k) ps"
    using s2_fields ps by (auto simp: take_map)
  have "add_df_to_db_async env df source_name batch_size s = (Inl e, s')"
    using assms(1,2,3) run
    by (simp add: add_df_to_db_async_def Let_def payload_at_def [symmetric] s2_def [symmetric])
  with fields show ?thesis by blast
qed

theorem C4_failed_batch_keeps_earlier_batches_witness:
  "fst (add_df_to_db_async failing_add_env sample_df ''sample.csv'' 1 mem_state)
      = Inl (ExternalError ''disk full'')
   \<and> map add_ids (snd (chroma_client (snd
        (add_df_to_db_async failing_add_env sample_df ''sample.csv'' 1 mem_state))))
      = [[''sample.csv_row0'']]
   \<and> map add_ids (add_calls (trace (snd
        (add_df_to_db_async failing_add_env sample_df ''sample.csv'' 1 mem_state))))
      = [[''sample.csv_row0''], [''sample.csv_row1'']]"
proof -
  let ?tasks = "[[''col1: 0, col2: text_0''], [''col1: 1, col2: ''], [''col1: 2, col2: text_2'']]"
  let ?embs = "[[21], [15], [21 :: real]]"
  let ?ps = "map (batch_payload (build_ids sample_df ''sample.csv'') (build_docs sample_df) ?embs
                     (build_metas sample_df ''sample.csv'') (nat 1)) [0, 1, 2]"
  have h1: "embedding_tasks (build_docs sample_df) 1 = Inr ?tasks" by code_simp
  have h2: "gather_embeddings failing_add_env ?tasks = Inr ?embs" by code_simp
  have h3: "py_range (length (build_ids sample_df ''sample.csv'')) 1 = Inr [0, 1, 2]" by code_simp
  have h5: "1 < length ?ps" by simp
  have h6: "committed failing_add_env (collection mem_state) (take 1 ?ps) (chroma_client mem_state)
              = Inr (0, take 1 ?ps)" by code_simp
  have h7: "collection_add failing_add_env (collection mem_state) (?ps ! 1) (0, take 1 ?ps)
              = Inl (ExternalError ''disk full'')" by code_simp
  obtain s' where
    run: "add_df_to_db_async failing_add_env sample_df ''sample.csv'' 1 mem_state
            = (Inl (ExternalError ''disk full''), s')"
    and cl: "chroma_client s' = (0, take 1 ?ps)"
    and adds: "add_calls (trace s') = add_calls (trace mem_state) @ take (Suc 1) ?ps"
    using C4_failed_batch_keeps_earlier_batches [OF h1 h2 h3 refl h5 h6 h7] by blast
  have i1: "map add_ids (take 1 ?ps) = [[''sample.csv_row0'']]" by code_simp
  have i2: "map add_ids (add_calls (trace mem_state) @ take (Suc 1) ?ps)
              = [[''sample.csv_row0''], [''sample.csv_row1'']]" by code_simp
  show ?thesis using run cl adds i1 i2 by simp
qed

lemma length_build:
  "length (build_docs df) = length (iterrows df)"
  "length (build_ids df source_name) = length (iterrows df)"
  "length (build_metas df source_name) = length (iterrows df)"
  by (simp_all add: build_docs_def build_ids_def build_metas_def)

lemma concat_slices_all:
  "0 < B \<Longrightarrow> length xs = n \<Longrightarrow> concat (map (\<lambda>i. slice xs i (i + B)) (range_from 0 n B)) = xs"
  using concat_slices [of B xs 0] by simp

lemma py_range_pos: "0 < step \<Longrightarrow> py_range n step = Inr (range_from 0 n (nat step))"
  by (simp add: py_range_def)

lemma payload_fields:
  "add_ids \<circ> batch_payload ids docs all_embeddings metas B = (\<lambda>i. slice ids i (i + B))"
  "add_documents \<circ> batch_payload ids docs all_embeddings metas B = (\<lambda>i. slice docs i (i + B))"
  "add_embeddings \<circ> batch_payload ids docs all_embeddings metas B = (\<lambda>i. slice all_embeddings i (i + B))"
  "add_metadatas \<circ> batch_payload ids docs all_embeddings metas B = (\<lambda>i. slice metas i (i + B))"
  by (simp_all add: fun_eq_iff batch_payload_def)

lemma payloads_cover:
  assumes "0 < batch_size"
    and "length ids = n" and "length docs = n" and "length metas = n"
    and "py_range n batch_size = Inr starts"
    and "ps = map (batch_payload ids docs all_embeddings metas (nat batch_size)) starts"
  shows "concat (map add_ids ps) = ids"
    and "concat (map add_documents ps) = docs"
    and "concat (map add_metadatas ps) = metas"
    and "length all_embeddings = n \<Longrightarrow> concat (map add_embeddings ps) = all_embeddings"
    and "length ps = (n + nat batch_size - 1) div nat batch_size"
proof -
  have starts: "starts = range_from 0 n (nat batch_size)"
    using assms(1,5) by (simp add: py_range_pos)
  have B: "0 < nat batch_size" using assms(1) by simp
  show "concat (map add_ids ps) = ids"
    using concat_slices_all [OF B assms(2)] by (simp add: assms(6) starts payload_fields)
  show "concat (map add_documents ps) = docs"
    using concat_slices_all [OF B assms(3)] by (simp add: assms(6) starts payload_fields)
  show "concat (map add_metadatas ps) = metas"
    using concat_slices_all [OF B assms(4)] by (simp add: assms(6) starts payload_fields)
  show "concat (map add_embeddings ps) = all_embeddings" if "length all_embeddings = n"
    using concat_slices_all [OF B that] by (simp add: assms(6) starts payload_fields)
  show "length ps = (n + nat batch_size - 1) div nat batch_size"
    by (simp add: assms(6) starts range_from_closed [OF B])
qed

text \<open>
  C10. For a table with no rows and the default (or any non-zero) batch size, the
  ingestion sends no embedding request, makes no add call, returns normally and
  prints a total of zero rows; the store and the collection handle are unchanged.
\<close>

theorem C10_empty_table_is_a_no_op:
  assumes "rows df = []" and "batch_size \<noteq> 0"
  shows "add_df_to_db_async env df source_name batch_size s
           = (Inr (), emit [Print (StartingEmbedding 0), Print AllEmbeddingsProcessed,
                            Print (TotalRowsAdded 0 source_name)] s)
         \<and> add_df_to_db env df source_name s
           = (Inr (), emit [Print (StartingEmbedding 0), Print AllEmbeddingsProcessed,
                            Print (TotalRowsAdded 0 source_name)] s)
         \<and> embed_calls (trace (snd (add_df_to_db_async env df source_name batch_size s)))
           = embed_calls (trace s)
         \<and> add_calls (trace (snd (add_df_to_db_async env df source_name batch_size s)))
           = add_calls (trace s)
         \<and> chroma_client (snd (add_df_to_db_async env df source_name batch_size s)) = chroma_client s
         \<and> collection (snd (add_df_to_db_async env df source_name batch_size s)) = collection s"
proof -
  have it: "iterrows df = []" using assms(1) by (simp add: iterrows_def)
  have r: "py_range 0 b = Inr []" if "b \<noteq> 0" for b
    using that by (simp add: py_range_def range_from.simps)
  have run: "add_df_to_db_async env df source_name b s
           = (Inr (), emit [Print (StartingEmbedding 0), Print AllEmbeddingsProcessed,
                            Print (TotalRowsAdded 0 source_name)] s)" if "b \<noteq> 0" for b
    using r [OF that] it
    by (simp add: add_df_to_db_async_def build_docs_def build_ids_def build_metas_def
        embedding_tasks_def gather_embeddings_def task_results_def emit_def)
  show ?thesis
    using run [OF assms(2)] run [of 100]
    by (simp add: add_df_to_db_def emit_simps add_calls_append embed_calls_append)
qed

theorem C10_empty_table_is_a_no_op_witness:
  "rows empty_df = [] \<and> (100::int) \<noteq> 0
   \<and> add_df_to_db_async mem_env empty_df ''empty.csv'' 100 mem_state
       = (Inr (), \<lparr>chroma_client = (0, []), collection = 0,
                    trace = [Print (StartingEmbedding 0), Print AllEmbeddingsProcessed,
                             Print (TotalRowsAdded 0 ''empty.csv'')]\<rparr>)"
proof -
  have h1: "rows empty_df = []" by (simp add: empty_df_def)
  have h2: "(100::int) \<noteq> 0" by simp
  show ?thesis
    using C10_empty_table_is_a_no_op [OF h1 h2, of mem_env "''empty.csv''" mem_state] h1
    by (simp add: emit_def mem_state_def)
qed

lemma build_ids_default_index:
  assumes "index df = map int [0..<N]" and "length (rows df) = N"
  shows "build_ids df source_name = map (\<lambda>i. source_name @ ''_row'' @ str_int (int i)) [0..<N]"
proof -
  have "map fst (iterrows df) = map int [0..<N]"
    using assms by (simp add: iterrows_def)
  moreover have "build_ids df source_name = map (doc_id source_name) (map fst (iterrows df))"
    by (simp add: build_ids_def case_prod_unfold comp_def)
  ultimately show ?thesis by (simp add: doc_id_def comp_def)
qed

lemma iterrows_default_index:
  "index df = map int [0..<N] \<Longrightarrow> length (rows df) = N \<Longrightarrow> length (iterrows df) = N"
  by (simp add: iterrows_def)

lemma str_int_0: "str_int 0 = ''0''"
  by code_simp

lemma str_int_249: "str_int 249 = ''249''"
  by code_simp

lemma scenario_batch_sizes:
  assumes "length xs = 250"
  shows "map length (map (\<lambda>k. slice xs (k * 100) (k * 100 + 100)) [0..<3]) = [100, 100, 50]"
proof -
  have "[0..<3] = [0, 1, 2::nat]" by (simp add: upt_rec)
  then show ?thesis using assms by (simp add: slice_def)
qed

lemma scenario_ends:
  "hd (map (\<lambda>i. src @ ''_row'' @ str_int (int i)) [0..<250]) = src @ ''_row0''"
  "last (map (\<lambda>i. src @ ''_row'' @ str_int (int i)) [0..<250]) = src @ ''_row249''"
proof -
  have ne: "[0..<250::nat] \<noteq> []" by simp
  have h: "hd [0..<250::nat] = 0" by simp
  have l: "last [0..<250::nat] = 249" by simp
  show "hd (map (\<lambda>i. src @ ''_row'' @ str_int (int i)) [0..<250]) = src @ ''_row0''"
    using ne h str_int_0 by (simp add: hd_map)
  show "last (map (\<lambda>i. src @ ''_row'' @ str_int (int i)) [0..<250]) = src @ ''_row249''"
    using ne l str_int_249 by (simp add: last_map)
qed

text \<open>
  C5, for the default index. Ingesting an \<open>N\<close>-row table whose index labels are \<open>0..N-1\<close> (the
  default index, as the CSV entry point produces it) with source name \<open>s\<close> and a
  positive batch size \<open>B\<close>, when every embedding request and every add call
  succeeds, sends \<open>ceil(N/B)\<close> embedding requests and makes \<open>ceil(N/B)\<close> add calls
  carrying exactly \<open>N\<close> entries whose ids are \<open>s_row0\<close> ... \<open>s_row(N-1)\<close> in order. For
  250 rows, batch size 100 and source \<open>samples.csv\<close> the embedding batches and the
  add calls have sizes 100, 100, 50, and the ids run from \<open>samples.csv_row0\<close> to
  \<open>samples.csv_row249\<close>.
\<close>

theorem C5_ingest_counts_and_ids:
  assumes "0 < batch_size"
    and "index df = map int [0..<N]"
    and "length (rows df) = N"
    and "embedding_tasks (build_docs df) batch_size = Inr tasks"
    and "gather_embeddings env tasks = Inr all_embeddings"
    and "py_range (length (build_ids df source_name)) batch_size = Inr starts"
    and "ps = map (batch_payload (build_ids df source_name) (build_docs df) all_embeddings
                     (build_metas df source_name) (nat batch_size)) starts"
    and "committed env (collection s) ps (chroma_client s) = Inr c'"
  shows "\<exists>s'. add_df_to_db_async env df source_name batch_size s = (Inr (), s')
           \<and> chroma_client s' = c'
           \<and> embed_calls (trace s') = embed_calls (trace s) @ tasks
           \<and> length tasks = (N + nat batch_size - 1) div nat batch_size
           \<and> add_calls (trace s') = add_calls (trace s) @ ps
           \<and> length ps = (N + nat batch_size - 1) div nat batch_size
           \<and> concat (map add_ids ps) = map (\<lambda>i. source_name @ ''_row'' @ str_int (int i)) [0..<N]
           \<and> length (concat (map add_ids ps)) = N
           \<and> (N = 250 \<and> batch_size = 100 \<and> source_name = ''samples.csv'' \<longrightarrow>
                 map length tasks = [100, 100, 50]
               \<and> map (length \<circ> add_ids) ps = [100, 100, 50]
               \<and> hd (concat (map add_ids ps)) = ''samples.csv_row0''
               \<and> last (concat (map add_ids ps)) = ''samples.csv_row249'')"
proof -
  define B where "B = nat batch_size"
  have Bpos: "0 < B" using assms(1) by (simp add: B_def)
  have n: "length (iterrows df) = N" by (rule iterrows_default_index [OF assms(2,3)])
  obtain s' where run: "add_df_to_db_async env df source_name batch_size s = (Inr (), s')"
    and fields: "chroma_client s' = c'"
      "embed_calls (trace s') = embed_calls (trace s) @ tasks"
      "add_calls (trace s') = add_calls (trace s) @ ps"
    using add_df_succeeds [OF assms(4,5,6,7,8)] by blast
  have tasks: "tasks = map (\<lambda>k. slice (build_docs df) (k * B) (k * B + B)) [0..<(N + B - 1) div B]"
    using embedding_tasks_pos [OF assms(1), of "build_docs df"] assms(4) n
    by (simp add: B_def length_build)
  have ltasks: "length tasks = (N + B - 1) div B" by (simp add: tasks)
  have r: "py_range (length (iterrows df)) batch_size = Inr starts"
    using assms(6) by (simp add: length_build)
  note cover = payloads_cover [OF assms(1) length_build(2) length_build(1) length_build(3) r assms(7)]
  have lps: "length ps = (N + B - 1) div B" using cover(5) n by (simp add: B_def)
  have ids: "concat (map add_ids ps) = map (\<lambda>i. source_name @ ''_row'' @ str_int (int i)) [0..<N]"
    using cover(1) build_ids_default_index [OF assms(2,3)] by simp
  have len: "length (concat (map add_ids ps)) = N" unfolding ids by simp
  have starts: "starts = map (\<lambda>k. k * B) [0..<(N + B - 1) div B]"
  proof -
    have "starts = range_from 0 N B" using r n assms(1) by (simp add: py_range_pos B_def)
    then show ?thesis using range_from_closed [OF Bpos, of N] by simp
  qed
  have pids: "map (length \<circ> add_ids) ps
     = map length (map (\<lambda>k. slice (build_ids df source_name) (k * B) (k * B + B)) [0..<(N + B - 1) div B])"
    by (simp add: assms(7) starts batch_payload_def B_def comp_def)
  have scen: "N = 250 \<and> batch_size = 100 \<and> source_name = ''samples.csv'' \<longrightarrow>
                 map length tasks = [100, 100, 50]
               \<and> map (length \<circ> add_ids) ps = [100, 100, 50]
               \<and> hd (concat (map add_ids ps)) = ''samples.csv_row0''
               \<and> last (concat (map add_ids ps)) = ''samples.csv_row249''"
  proof (intro impI, elim conjE)
    assume N: "N = 250" and b: "batch_size = 100" and src: "source_name = ''samples.csv''"
    have B100: "B = 100" using b by (simp add: B_def)
    have c3: "(N + 100 - 1) div 100 = 3" using N by simp
    have ld: "length (build_docs df) = 250" using n N by (simp add: length_build)
    have li: "length (build_ids df source_name) = 250" using n N by (simp add: length_build)
    have t: "map length tasks = [100, 100, 50]"
      unfolding tasks B100 c3 by (rule scenario_batch_sizes [OF ld])
    have p: "map (length \<circ> add_ids) ps = [100, 100, 50]"
      unfolding pids B100 c3 by (rule scenario_batch_sizes [OF li])
    have h: "hd (concat (map add_ids ps)) = ''samples.csv_row0''"
      unfolding ids N src using scenario_ends(1) [of "''samples.csv''"] by simp
    have l: "last (concat (map add_ids ps)) = ''samples.csv_row249''"
      unfolding ids N src using scenario_ends(2) [of "''samples.csv''"] by simp
    from t p h l show "map length tasks = [100, 100, 50]
               \<and> map (length \<circ> add_ids) ps = [100, 100, 50]
               \<and> hd (concat (map add_ids ps)) = ''samples.csv_row0''
               \<and> last (concat (map add_ids ps)) = ''samples.csv_row249''" by blast
  qed
  show ?thesis
    using run fields(1) fields(2) ltasks fields(3) lps ids len scen
    unfolding B_def
    apply -
    apply (rule exI [of _ s'])
    apply (intro conjI; assumption)
    done
qed

lemma mem_task_results:
  "gather (map (\<lambda>(k, texts). get_gemini_embeddings_batch_async mem_env k texts) (enumerate n tasks))
     = Inr (map (map mem_embed) tasks)"
  by (induction tasks arbitrary: n)
     (simp_all add: get_gemini_embeddings_batch_async_def mem_env_def)

lemma mem_gather_embeddings:
  "gather_embeddings mem_env tasks = Inr (concat (map (map mem_embed) tasks))"
  by (simp add: gather_embeddings_def task_results_def mem_task_results)

lemma mem_committed:
  "committed mem_env g ps (g, qs) = Inr (g, qs @ ps)"
  by (induction ps arbitrary: qs) (simp_all add: mem_env_def mem_add_def)

theorem C5_ingest_counts_and_ids_witness:
  "fst (add_df_to_db_async mem_env table_250 ''samples.csv'' 100 mem_state) = Inr ()
   \<and> map length (embed_calls (trace (snd
        (add_df_to_db_async mem_env table_250 ''samples.csv'' 100 mem_state)))) = [100, 100, 50]
   \<and> map (length \<circ> add_ids) (add_calls (trace (snd
        (add_df_to_db_async mem_env table_250 ''samples.csv'' 100 mem_state)))) = [100, 100, 50]
   \<and> length (concat (map add_ids (add_calls (trace (snd
        (add_df_to_db_async mem_env table_250 ''samples.csv'' 100 mem_state)))))) = 250
   \<and> hd (concat (map add_ids (add_calls (trace (snd
        (add_df_to_db_async mem_env table_250 ''samples.csv'' 100 mem_state))))))
      = ''samples.csv_row0''
   \<and> last (concat (map add_ids (add_calls (trace (snd
        (add_df_to_db_async mem_env table_250 ''samples.csv'' 100 mem_state))))))
      = ''samples.csv_row249''"
proof -
  define tasks where "tasks = map (\<lambda>k. slice (build_docs table_250) (k * nat 100) (k * nat 100 + nat 100))
                  [0..<(length (build_docs table_250) + nat 100 - 1) div nat 100]"
  define embs where "embs = concat (map (map mem_embed) tasks)"
  define starts where "starts = range_from 0 (length (build_ids table_250 ''samples.csv'')) (nat 100)"
  define ps where "ps = map (batch_payload (build_ids table_250 ''samples.csv'') (build_docs table_250)
                     embs (build_metas table_250 ''samples.csv'') (nat 100)) starts"
  have h1: "(0::int) < 100" by simp
  have h2: "index table_250 = map int [0..<250]" by (simp add: table_250_def)
  have h3: "length (rows table_250) = 250" by (simp add: table_250_def)
  have h4: "embedding_tasks (build_docs table_250) 100 = Inr tasks"
    unfolding tasks_def by (rule embedding_tasks_pos [OF h1])
  have h5: "gather_embeddings mem_env tasks = Inr embs"
    unfolding embs_def by (rule mem_gather_embeddings)
  have h6: "py_range (length (build_ids table_250 ''samples.csv'')) 100 = Inr starts"
    unfolding starts_def by (rule py_range_pos [OF h1])
  have h8: "committed mem_env (collection mem_state) ps (chroma_client mem_state) = Inr (0, ps)"
    using mem_committed [of 0 ps "[]"] by (simp add: mem_state_def)
  have t: "add_calls (trace mem_state) = []" "embed_calls (trace mem_state) = []"
    by (simp_all add: mem_state_def)
  from C5_ingest_counts_and_ids [OF h1 h2 h3 h4 h5 h6 ps_def h8] t
  obtain s' where "add_df_to_db_async mem_env table_250 ''samples.csv'' 100 mem_state = (Inr (), s')"
    and "embed_calls (trace s') = tasks" and "add_calls (trace s') = ps"
    and "length (concat (map add_ids ps)) = 250"
    and "map length tasks = [100, 100, 50]"
    and "map (length \<circ> add_ids) ps = [100, 100, 50]"
    and "hd (concat (map add_ids ps)) = ''samples.csv_row0''"
    and "last (concat (map add_ids ps)) = ''samples.csv_row249''"
    by auto
  then show ?thesis by simp
qed

theorem C5_ids_follow_index_labels_counterexample:
  "length (rows filtered_df) = 1
   \<and> fst (add_df_to_db_async mem_env filtered_df ''samples.csv'' 100 mem_state) = Inr ()
   \<and> concat (map add_ids (add_calls (trace (snd
        (add_df_to_db_async mem_env filtered_df ''samples.csv'' 100 mem_state)))))
      = [''samples.csv_row5'']
   \<and> concat (map add_ids (add_calls (trace (snd
        (add_df_to_db_async mem_env filtered_df ''samples.csv'' 100 mem_state)))))
      \<noteq> [''samples.csv_row0'']"
  by code_simp

subsection \<open>Input validation, reset and query\<close>

text \<open>
  C7, the failure modes of the partition. The partition step fails exactly when \<open>batch_size\<close> is zero, with
  the \<open>ValueError\<close> of \<open>range\<close>, and the ingestion then returns that error before any
  embedding request or store call. A negative \<open>batch_size\<close> is not reported: the
  partition is empty and the ingestion returns normally, having sent and written
  nothing.
\<close>

theorem C7_partition_fails_only_on_zero:
  "(embedding_tasks docs batch_size = Inl e \<longleftrightarrow> batch_size = 0 \<and> e = ValueError)
   \<and> add_df_to_db_async env df source_name 0 s = (Inl ValueError, s)
   \<and> (batch_size < 0 \<longrightarrow>
        embedding_tasks docs batch_size = Inr []
        \<and> add_df_to_db_async env df source_name batch_size s
           = (Inr (), emit [Print (StartingEmbedding 0), Print AllEmbeddingsProcessed,
                            Print (TotalRowsAdded (length (iterrows df)) source_name)] s))"
proof -
  have a: "embedding_tasks docs batch_size = Inl e \<longleftrightarrow> batch_size = 0 \<and> e = ValueError"
    by (auto simp: embedding_tasks_def py_range_def)
  have b: "add_df_to_db_async env df source_name 0 s = (Inl ValueError, s)"
    by (simp add: add_df_to_db_async_def embedding_tasks_def py_range_def)
  have c: "batch_size < 0 \<longrightarrow>
        embedding_tasks docs batch_size = Inr []
        \<and> add_df_to_db_async env df source_name batch_size s
           = (Inr (), emit [Print (StartingEmbedding 0), Print AllEmbeddingsProcessed,
                            Print (TotalRowsAdded (length (iterrows df)) source_name)] s)"
    by (simp add: add_df_to_db_async_def embedding_tasks_def py_range_def gather_embeddings_def
        task_results_def emit_def length_build)
  from a b c show ?thesis by blast
qed

theorem C7_partition_fails_only_on_zero_witness:
  "(- 1 :: int) < 0
   \<and> embedding_tasks [''a'', ''b''] (- 1) = Inr []
   \<and> embedding_tasks [''a'', ''b''] 0 = Inl ValueError
   \<and> add_df_to_db_async mem_env sample_df ''sample.csv'' 0 mem_state = (Inl ValueError, mem_state)
   \<and> add_df_to_db_async mem_env sample_df ''sample.csv'' (- 1) mem_state
       = (Inr (), emit [Print (StartingEmbedding 0), Print AllEmbeddingsProcessed,
                        Print (TotalRowsAdded 3 ''sample.csv'')] mem_state)"
proof -
  have l: "length (iterrows sample_df) = 3" by (simp add: iterrows_def sample_df_def)
  show ?thesis
    using C7_partition_fails_only_on_zero [of "[''a'', ''b'']" "- 1" ValueError mem_env sample_df
        "''sample.csv''" mem_state]
      C7_partition_fails_only_on_zero [of "[''a'', ''b'']" 0 ValueError mem_env sample_df
        "''sample.csv''" mem_state] l
    by simp
qed

theorem C7_negative_batch_size_not_reported_counterexample:
  "embedding_tasks [''a'', ''b''] (- 1) = Inr []
   \<and> fst (add_df_to_db_async mem_env sample_df ''sample.csv'' (- 1) mem_state) = Inr ()
   \<and> embed_calls (trace (snd (add_df_to_db_async mem_env sample_df ''sample.csv'' (- 1) mem_state))) = []
   \<and> add_calls (trace (snd (add_df_to_db_async mem_env sample_df ''sample.csv'' (- 1) mem_state))) = []"
  by code_simp

text \<open>
  C3, what a reset does. \<open>clear_db\<close> never raises: every exception of the store is caught
  and printed. When \<open>delete_collection\<close> raises, \<open>get_or_create_collection\<close> is not
  called, and the client and the process-wide handle stay as they were; the only
  effects are the delete call and the printed failure. When the delete succeeds, the
  handle becomes the one \<open>get_or_create_collection\<close> returns, and stays the old one if
  that call raises.
\<close>

theorem C3_clear_db_never_raises:
  "fst (clear_db env s) = Inr ()
   \<and> (delete_collection env ''data_collection'' (chroma_client s) = Inl e \<longrightarrow>
        snd (clear_db env s)
          = emit [DeleteCollection ''data_collection'', Print (ResetFailed e)] s)
   \<and> (delete_collection env ''data_collection'' (chroma_client s) = Inr c1
        \<and> get_or_create_collection env ''data_collection'' c1 = Inr (h, c2) \<longrightarrow>
        snd (clear_db env s)
          = emit [DeleteCollection ''data_collection'', GetOrCreateCollection ''data_collection'',
                  Print ResetDone] (s\<lparr>chroma_client := c2, collection := h\<rparr>))
   \<and> (delete_collection env ''data_collection'' (chroma_client s) = Inr c1
        \<and> get_or_create_collection env ''data_collection'' c1 = Inl e \<longrightarrow>
        snd (clear_db env s)
          = emit [DeleteCollection ''data_collection'', GetOrCreateCollection ''data_collection'',
                  Print (ResetFailed e)] (s\<lparr>chroma_client := c1\<rparr>))"
proof -
  have a: "fst (clear_db env s) = Inr ()"
    by (simp add: clear_db_def split: prod.splits sum.splits)
  have b: "delete_collection env ''data_collection'' (chroma_client s) = Inl e \<longrightarrow>
        snd (clear_db env s)
          = emit [DeleteCollection ''data_collection'', Print (ResetFailed e)] s"
    by (simp add: clear_db_def clear_db_try_def emit_def)
  have c: "delete_collection env ''data_collection'' (chroma_client s) = Inr c1
        \<and> get_or_create_collection env ''data_collection'' c1 = Inr (h, c2) \<longrightarrow>
        snd (clear_db env s)
          = emit [DeleteCollection ''data_collection'', GetOrCreateCollection ''data_collection'',
                  Print ResetDone] (s\<lparr>chroma_client := c2, collection := h\<rparr>)"
    by (simp add: clear_db_def clear_db_try_def emit_def)
  have d: "delete_collection env ''data_collection'' (chroma_client s) = Inr c1
        \<and> get_or_create_collection env ''data_collection'' c1 = Inl e \<longrightarrow>
        snd (clear_db env s)
          = emit [DeleteCollection ''data_collection'', GetOrCreateCollection ''data_collection'',
                  Print (ResetFailed e)] (s\<lparr>chroma_client := c1\<rparr>)"
    by (simp add: clear_db_def clear_db_try_def emit_def)
  from a b c d show ?thesis by blast
qed

theorem C3_clear_db_never_raises_witness:
  "delete_collection failing_delete_env ''data_collection'' (chroma_client loaded_state)
      = Inl (ExternalError ''locked'')
   \<and> clear_db failing_delete_env loaded_state
      = (Inr (), emit [DeleteCollection ''data_collection'',
                       Print (ResetFailed (ExternalError ''locked''))] loaded_state)
   \<and> delete_collection mem_env ''data_collection'' (chroma_client loaded_state) = Inr (1, [])
   \<and> get_or_create_collection mem_env ''data_collection'' (1, []) = Inr (1, (1, []))
   \<and> clear_db mem_env loaded_state
      = (Inr (), \<lparr>chroma_client = (1, []), collection = 1,
                   trace = [DeleteCollection ''data_collection'',
                            GetOrCreateCollection ''data_collection'', Print ResetDone]\<rparr>)"
proof -
  have d1: "delete_collection failing_delete_env ''data_collection'' (chroma_client loaded_state)
      = Inl (ExternalError ''locked'')"
    by (simp add: failing_delete_env_def)
  have d2: "delete_collection mem_env ''data_collection'' (chroma_client loaded_state) = Inr (1, [])"
    by (simp add: mem_env_def mem_delete_def loaded_state_def)
  have g2: "get_or_create_collection mem_env ''data_collection'' (1, []) = Inr (1, (1, []))"
    by (simp add: mem_env_def mem_get_or_create_def)
  have r1: "clear_db failing_delete_env loaded_state
      = (Inr (), emit [DeleteCollection ''data_collection'',
                       Print (ResetFailed (ExternalError ''locked''))] loaded_state)"
    using C3_clear_db_never_raises [of failing_delete_env loaded_state "ExternalError ''locked''"] d1
    by (simp add: prod_eq_iff)
  have r2: "clear_db mem_env loaded_state
      = (Inr (), \<lparr>chroma_client = (1, []), collection = 1,
                   trace = [DeleteCollection ''data_collection'',
                            GetOrCreateCollection ''data_collection'', Print ResetDone]\<rparr>)"
    using C3_clear_db_never_raises [of mem_env loaded_state _ "(1, [])" 1 "(1, [])"] d2 g2
    by (simp add: prod_eq_iff emit_def loaded_state_def)
  from d1 r1 d2 g2 r2 show ?thesis by blast
qed

theorem C3_failed_delete_keeps_old_handle_counterexample:
  "delete_collection failing_delete_env ''data_collection'' (chroma_client loaded_state)
      = Inl (ExternalError ''locked'')
   \<and> clear_db failing_delete_env loaded_state
      = (Inr (),
         \<lparr>chroma_client =
            (0, [\<lparr>add_ids = [''old.csv_row0''], add_documents = [''col1: 7''],
                  add_embeddings = [[7]], add_metadatas = [doc_meta ''old.csv'' 0]\<rparr>]),
          collection = 0,
          trace = [DeleteCollection ''data_collection'',
                   Print (ResetFailed (ExternalError ''locked''))]\<rparr>)"
  by (simp add: clear_db_def clear_db_try_def emit_def failing_delete_env_def loaded_state_def)

lemma build_hits_closed:
  "i + length docs \<le> length metadatas \<Longrightarrow>
   build_hits i docs metadatas =
     Inr (map (\<lambda>(j, doc).
            \<lparr>hit_text = doc,
             hit_source = map_of (case metadatas ! j of None \<Rightarrow> [] | Some m \<Rightarrow> m) ''source'',
             hit_row = map_of (case metadatas ! j of None \<Rightarrow> [] | Some m \<Rightarrow> m) ''row''\<rparr>)
          (enumerate i docs))"
proof (induction docs arbitrary: i)
  case Nil
  then show ?case by simp
next
  case (Cons doc docs)
  then have "Suc i + length docs \<le> length metadatas" by simp
  from Cons.IH [OF this] Cons.prems show ?case by (simp add: Let_def)
qed

text \<open>
  C6. When the query embedding and the store lookup succeed and the store answers
  with its result arrays (a documents list and a metadata list for the one query,
  the metadata list at least as long), \<open>query_db\<close> returns one hit per document, in
  the store's order: the text is the document, and \<open>source\<close> and \<open>row\<close> are what the
  hit's metadata holds under these keys, both \<open>None\<close> when the metadata entry is
  absent. When the store answers with no document, as for an empty collection, the
  result is the empty sequence and not an error.
\<close>

theorem C6_query_hits_shape:
  assumes "get_gemini_embedding env question = Inr q_emb"
    and "collection_query env (collection s) [q_emb] top_k (chroma_client s) = Inr results"
    and "res_documents results = Some (docs # more_docs)"
    and "res_metadatas results = Some (metadatas # more_metadatas)"
    and "length docs \<le> length metadatas"
  shows "\<exists>hits. query_db env question top_k s = Inr hits
           \<and> length hits = length docs
           \<and> (\<forall>i<length docs.
                 hit_text (hits ! i) = docs ! i
               \<and> (metadatas ! i = None \<longrightarrow> hit_source (hits ! i) = None \<and> hit_row (hits ! i) = None)
               \<and> (\<forall>m. metadatas ! i = Some m \<longrightarrow>
                     hit_source (hits ! i) = map_of m ''source'' \<and> hit_row (hits ! i) = map_of m ''row''))
           \<and> (docs = [] \<longrightarrow> hits = [])"
proof -
  define hits where "hits = map (\<lambda>(j, doc).
            \<lparr>hit_text = doc,
             hit_source = map_of (case metadatas ! j of None \<Rightarrow> [] | Some m \<Rightarrow> m) ''source'',
             hit_row = map_of (case metadatas ! j of None \<Rightarrow> [] | Some m \<Rightarrow> m) ''row''\<rparr>)
          (enumerate 0 docs)"
  have bh: "build_hits 0 docs metadatas = Inr hits"
    using build_hits_closed [of 0 docs metadatas] assms(5) by (simp add: hits_def)
  have run: "query_db env question top_k s = Inr hits"
    using assms(1,2,3,4) bh by (simp add: query_db_def shape_results_def first_def)
  have len: "length hits = length docs" by (simp add: hits_def)
  have each: "\<forall>i<length docs.
                 hit_text (hits ! i) = docs ! i
               \<and> (metadatas ! i = None \<longrightarrow> hit_source (hits ! i) = None \<and> hit_row (hits ! i) = None)
               \<and> (\<forall>m. metadatas ! i = Some m \<longrightarrow>
                     hit_source (hits ! i) = map_of m ''source'' \<and> hit_row (hits ! i) = map_of m ''row'')"
    by (simp add: hits_def nth_enumerate_eq)
  have empty: "docs = [] \<longrightarrow> hits = []" by (simp add: hits_def)
  show ?thesis
    using run len each empty
    apply -
    apply (rule exI [of _ hits])
    apply (intro conjI; assumption)
    done
qed

theorem C6_query_hits_shape_witness:
  "query_db sparse_meta_env ''what about 7?'' 3 loaded_state
     = Inr [\<lparr>hit_text = ''col1: 7'', hit_source = Some (PyStr ''old.csv''), hit_row = Some (PyInt 0)\<rparr>,
            \<lparr>hit_text = ''free text'', hit_source = None, hit_row = None\<rparr>]
   \<and> query_db mem_env ''what about 7?'' 3 mem_state = Inr []"
proof -
  let ?q = "''what about 7?''"
  have h1: "get_gemini_embedding sparse_meta_env ?q = Inr (mem_embed ?q)"
    by (simp add: get_gemini_embedding_def sparse_meta_env_def mem_env_def)
  have h2: "collection_query sparse_meta_env (collection loaded_state) [mem_embed ?q] 3
              (chroma_client loaded_state)
            = Inr \<lparr>res_documents = Some [[''col1: 7'', ''free text'']],
                   res_metadatas = Some [[Some (doc_meta ''old.csv'' 0), None]]\<rparr>"
    by (simp add: sparse_meta_env_def)
  have h5: "length [''col1: 7'', ''free text''] \<le> length [Some (doc_meta ''old.csv'' 0), None]"
    by simp
  obtain hits where run: "query_db sparse_meta_env ?q 3 loaded_state = Inr hits"
    and len: "length hits = 2"
    and each: "\<forall>i<2. hit_text (hits ! i) = [''col1: 7'', ''free text''] ! i
               \<and> ([Some (doc_meta ''old.csv'' 0), None] ! i = None
                    \<longrightarrow> hit_source (hits ! i) = None \<and> hit_row (hits ! i) = None)
               \<and> (\<forall>m. [Some (doc_meta ''old.csv'' 0), None] ! i = Some m \<longrightarrow>
                     hit_source (hits ! i) = map_of m ''source'' \<and> hit_row (hits ! i) = map_of m ''row'')"
    using C6_query_hits_shape [OF h1 h2 _ _ h5, of "[]" "[]"] by auto
  obtain a b where ab: "hits = [a, b]"
    using len by (metis (no_types) Suc_length_conv length_0_conv numeral_2_eq_2)
  have a: "a = \<lparr>hit_text = ''col1: 7'', hit_source = Some (PyStr ''old.csv''), hit_row = Some (PyInt 0)\<rparr>"
    using each [rule_format, of 0] ab by (cases a) (simp add: doc_meta_def)
  have b: "b = \<lparr>hit_text = ''free text'', hit_source = None, hit_row = None\<rparr>"
    using each [rule_format, of 1] ab by (cases b) simp
  have g1: "get_gemini_embedding mem_env ?q = Inr (mem_embed ?q)"
    by (simp add: get_gemini_embedding_def mem_env_def)
  have g2: "collection_query mem_env (collection mem_state) [mem_embed ?q] 3 (chroma_client mem_state)
            = Inr \<lparr>res_documents = Some [[]], res_metadatas = Some [[]]\<rparr>"
    by (simp add: mem_env_def mem_query_def mem_state_def)
  have g5: "length ([] :: string list) \<le> length ([] :: metadata option list)" by simp
  have e: "query_db mem_env ?q 3 mem_state = Inr []"
    using C6_query_hits_shape [OF g1 g2 _ _ g5, of "[]" "[]"] by auto
  from run ab a b e show ?thesis by simp
qed

subsection \<open>Every row becomes one entry\<close>

lemma gather_all_answered:
  "length rs = length xs \<Longrightarrow> (\<forall>k<length xs. xs ! k = Inr (rs ! k)) \<Longrightarrow> gather xs = Inr rs"
proof (induction xs arbitrary: rs)
  case Nil
  then show ?case by simp
next
  case (Cons x xs)
  then obtain r rs' where rs: "rs = r # rs'" by (cases rs) auto
  have x: "x = Inr r" using Cons.prems(2) rs by auto
  have "\<forall>k<length xs. xs ! k = Inr (rs' ! k)"
    using Cons.prems(2) rs by auto
  then have "gather xs = Inr rs'" using Cons.IH [of rs'] Cons.prems(1) rs by simp
  then show ?case using x rs by simp
qed

lemma gather_embeddings_answered:
  assumes "length rs = length tasks"
    and "\<forall>k<length tasks. embed_content_async env k (tasks ! k) = Inr (rs ! k)"
  shows "gather_embeddings env tasks = Inr (concat rs)"
proof -
  have "gather (task_results env tasks) = Inr rs"
    using assms by (intro gather_all_answered) (simp_all add: length_task_results task_results_nth)
  then show ?thesis by (rule gather_embeddings_Inr)
qed

lemma length_concat_answers:
  "list_all2 (\<lambda>b r. length r = length b) bs rs \<Longrightarrow> length (concat rs) = length (concat bs)"
  by (induction rule: list_all2_induct) simp_all

lemma row_text_serialize: "row_text cols r = serialize_record (zip cols r)"
  unfolding row_text_def fields_zip by (rule join_fields) simp

lemma build_explicit:
  "build_docs df = map (\<lambda>(i, r). serialize_record (zip (columns df) r)) (iterrows df)"
  "build_ids df source_name = map (\<lambda>(i, r). source_name @ ''_row'' @ str_int i) (iterrows df)"
  "build_metas df source_name
     = map (\<lambda>(i, r). [(''source'', PyStr source_name), (''row'', PyInt i)]) (iterrows df)"
  by (simp_all add: build_docs_def build_ids_def build_metas_def row_text_serialize doc_id_def
      doc_meta_def)

text \<open>
  C8, for a positive batch size. The ingestion entry point takes the table, the
  source name and a batch size (100 when the synchronous wrapper \<open>add_df_to_db\<close> is
  used). When the batch size is positive, every embedding request is answered with
  one embedding per text and every add call succeeds, the run returns normally, the
  requests sent are the batches of the row texts, and the entries carried by the add
  calls, taken in order, are exactly one per row of the table, in row order: the id
  \<open>source_row<label>\<close>, the serialised text, the metadata \<open>{source, row}\<close> of that row,
  and the embedding the service answered for that row's text.
\<close>

theorem C8_every_row_one_committed_entry:
  assumes "0 < batch_size"
    and "B = nat batch_size"
    and "n = (length (iterrows df) + B - 1) div B"
    and "ids = map (\<lambda>(i, r). source_name @ ''_row'' @ str_int i) (iterrows df)"
    and "docs = map (\<lambda>(i, r). serialize_record (zip (columns df) r)) (iterrows df)"
    and "metas = map (\<lambda>(i, r). [(''source'', PyStr source_name), (''row'', PyInt i)]) (iterrows df)"
    and "tasks = map (\<lambda>k. slice docs (k * B) (k * B + B)) [0..<n]"
    and "length rs = n"
    and "\<forall>k<n. embed_content_async env k (tasks ! k) = Inr (rs ! k)
              \<and> length (rs ! k) = length (tasks ! k)"
    and "ps = map (\<lambda>k. \<lparr>add_ids = slice ids (k * B) (k * B + B),
                         add_documents = slice docs (k * B) (k * B + B),
                         add_embeddings = slice (concat rs) (k * B) (k * B + B),
                         add_metadatas = slice metas (k * B) (k * B + B)\<rparr>) [0..<n]"
    and "committed env (collection s) ps (chroma_client s) = Inr c'"
  shows "\<exists>s'. add_df_to_db_async env df source_name batch_size s = (Inr (), s')
           \<and> (batch_size = 100 \<longrightarrow> add_df_to_db env df source_name s = (Inr (), s'))
           \<and> chroma_client s' = c'
           \<and> embed_calls (trace s') = embed_calls (trace s) @ tasks
           \<and> add_calls (trace s') = add_calls (trace s) @ ps
           \<and> concat (map add_ids ps) = ids
           \<and> concat (map add_documents ps) = docs
           \<and> concat (map add_embeddings ps) = concat rs
           \<and> concat (map add_metadatas ps) = metas
           \<and> length ids = length (iterrows df)
           \<and> length (concat rs) = length (iterrows df)
           \<and> zip docs (concat rs) = concat (map2 zip tasks rs)"
proof -
  have Bpos: "0 < B" using assms(1,2) by simp
  have docs: "build_docs df = docs" by (simp add: build_explicit assms(5))
  have ids: "build_ids df source_name = ids" by (simp add: build_explicit assms(4))
  have metas: "build_metas df source_name = metas" by (simp add: build_explicit assms(6))
  have ldocs: "length docs = length (iterrows df)" by (simp add: assms(5))
  have lids: "length ids = length (iterrows df)" by (simp add: assms(4))
  have lmetas: "length metas = length (iterrows df)" by (simp add: assms(6))
  have tasks: "embedding_tasks (build_docs df) batch_size = Inr tasks"
    using embedding_tasks_pos [OF assms(1), of docs] ldocs
    by (simp add: docs assms(7) assms(3) assms(2))
  have ltasks: "length tasks = n" by (simp add: assms(7))
  have all2: "list_all2 (\<lambda>b r. length r = length b) tasks rs"
    using assms(8,9) ltasks by (simp add: list_all2_conv_all_nth)
  have cat: "concat tasks = docs"
    using embedding_tasks_concat [OF assms(1) tasks] docs by simp
  have lembs: "length (concat rs) = length (iterrows df)"
    using length_concat_answers [OF all2] cat ldocs by simp
  have embs: "gather_embeddings env tasks = Inr (concat rs)"
    using assms(8,9) ltasks by (intro gather_embeddings_answered) simp_all
  define starts where "starts = map (\<lambda>k. k * B) [0..<n]"
  have r: "py_range (length (iterrows df)) batch_size = Inr starts"
    using range_from_closed [OF Bpos, of "length (iterrows df)"] assms(1)
    by (simp add: py_range_pos starts_def assms(2,3))
  have r': "py_range (length (build_ids df source_name)) batch_size = Inr starts"
    using r by (simp add: ids lids)
  have ps: "ps = map (batch_payload (build_ids df source_name) (build_docs df) (concat rs)
                     (build_metas df source_name) (nat batch_size)) starts"
    by (simp add: assms(10) starts_def batch_payload_def docs ids metas assms(2) comp_def)
  obtain s' where run: "add_df_to_db_async env df source_name batch_size s = (Inr (), s')"
    and f1: "chroma_client s' = c'"
    and f2: "embed_calls (trace s') = embed_calls (trace s) @ tasks"
    and f3: "add_calls (trace s') = add_calls (trace s) @ ps"
    using add_df_succeeds [OF tasks embs r' ps assms(11)] by blast
  have sync: "batch_size = 100 \<longrightarrow> add_df_to_db env df source_name s = (Inr (), s')"
    using run by (auto simp: add_df_to_db_def)
  note cover = payloads_cover [OF assms(1) length_build(2) length_build(1) length_build(3) r ps]
  have c1: "concat (map add_ids ps) = ids" using cover(1) ids by simp
  have c2: "concat (map add_documents ps) = docs" using cover(2) docs by simp
  have c3: "concat (map add_embeddings ps) = concat rs" using cover(4) [OF lembs] by simp
  have c4: "concat (map add_metadatas ps) = metas" using cover(3) metas by simp
  have z: "zip docs (concat rs) = concat (map2 zip tasks rs)"
    using zip_concat [OF all2] cat by simp
  show ?thesis
    using run sync f1 f2 f3 c1 c2 c3 c4 lids lembs z
    apply -
    apply (rule exI [of _ s'])
    apply (intro conjI; assumption)
    done
qed

theorem C8_every_row_one_committed_entry_witness:
  "add_df_to_db mem_env sample_df ''sample.csv'' mem_state
     = add_df_to_db_async mem_env sample_df ''sample.csv'' 100 mem_state
   \<and> fst (add_df_to_db mem_env sample_df ''sample.csv'' mem_state) = Inr ()
   \<and> embed_calls (trace (snd (add_df_to_db mem_env sample_df ''sample.csv'' mem_state)))
      = [[''col1: 0, col2: text_0'', ''col1: 1, col2: '', ''col1: 2, col2: text_2'']]
   \<and> add_calls (trace (snd (add_df_to_db mem_env sample_df ''sample.csv'' mem_state)))
      = [\<lparr>add_ids = [''sample.csv_row0'', ''sample.csv_row1'', ''sample.csv_row2''],
          add_documents = [''col1: 0, col2: text_0'', ''col1: 1, col2: '', ''col1: 2, col2: text_2''],
          add_embeddings = [[21], [15], [21]],
          add_metadatas = [[(''source'', PyStr ''sample.csv''), (''row'', PyInt 0)],
                           [(''source'', PyStr ''sample.csv''), (''row'', PyInt 1)],
                           [(''source'', PyStr ''sample.csv''), (''row'', PyInt 2)]]\<rparr>]
   \<and> chroma_client (snd (add_df_to_db mem_env sample_df ''sample.csv'' mem_state))
      = (0, add_calls (trace (snd (add_df_to_db mem_env sample_df ''sample.csv'' mem_state))))"
proof -
  let ?B = "nat 100"
  let ?n = "(length (iterrows sample_df) + ?B - 1) div ?B"
  let ?ids = "map (\<lambda>(i, r). ''sample.csv'' @ ''_row'' @ str_int i) (iterrows sample_df)"
  let ?docs = "map (\<lambda>(i, r). serialize_record (zip (columns sample_df) r)) (iterrows sample_df)"
  let ?metas = "map (\<lambda>(i, r). [(''source'', PyStr ''sample.csv''), (''row'', PyInt i)])
                  (iterrows sample_df)"
  let ?tasks = "map (\<lambda>k. slice ?docs (k * ?B) (k * ?B + ?B)) [0..<?n]"
  let ?rs = "map (map mem_embed) ?tasks"
  let ?ps = "map (\<lambda>k. \<lparr>add_ids = slice ?ids (k * ?B) (k * ?B + ?B),
                         add_documents = slice ?docs (k * ?B) (k * ?B + ?B),
                         add_embeddings = slice (concat ?rs) (k * ?B) (k * ?B + ?B),
                         add_metadatas = slice ?metas (k * ?B) (k * ?B + ?B)\<rparr>) [0..<?n]"
  have h1: "(0::int) < 100" by simp
  have h8: "length ?rs = ?n" by simp
  have h9: "\<forall>k<?n. embed_content_async mem_env k (?tasks ! k) = Inr (?rs ! k)
              \<and> length (?rs ! k) = length (?tasks ! k)"
    by (simp add: mem_env_def)
  have h11: "committed mem_env (collection mem_state) ?ps (chroma_client mem_state) = Inr (0, ?ps)"
    using mem_committed [of 0 ?ps "[]"] by (simp add: mem_state_def)
  have t: "add_calls (trace mem_state) = []" "embed_calls (trace mem_state) = []"
    by (simp_all add: mem_state_def)
  from C8_every_row_one_committed_entry [OF h1 refl refl refl refl refl refl h8 h9 refl h11] t
  obtain s' where run: "add_df_to_db mem_env sample_df ''sample.csv'' mem_state = (Inr (), s')"
    and cl: "chroma_client s' = (0, ?ps)"
    and em: "embed_calls (trace s') = ?tasks"
    and ad: "add_calls (trace s') = ?ps"
    by auto
  have ev_tasks: "?tasks = [[''col1: 0, col2: text_0'', ''col1: 1, col2: '', ''col1: 2, col2: text_2'']]"
    by code_simp
  have ev_ps: "?ps
      = [\<lparr>add_ids = [''sample.csv_row0'', ''sample.csv_row1'', ''sample.csv_row2''],
          add_documents = [''col1: 0, col2: text_0'', ''col1: 1, col2: '', ''col1: 2, col2: text_2''],
          add_embeddings = [[21], [15], [21]],
          add_metadatas = [[(''source'', PyStr ''sample.csv''), (''row'', PyInt 0)],
                           [(''source'', PyStr ''sample.csv''), (''row'', PyInt 1)],
                           [(''source'', PyStr ''sample.csv''), (''row'', PyInt 2)]]\<rparr>]"
    by code_simp
  have sync: "add_df_to_db mem_env sample_df ''sample.csv'' mem_state
     = add_df_to_db_async mem_env sample_df ''sample.csv'' 100 mem_state"
    by (simp add: add_df_to_db_def)
  have a: "fst (add_df_to_db mem_env sample_df ''sample.csv'' mem_state) = Inr ()"
    using run by simp
  have b: "embed_calls (trace (snd (add_df_to_db mem_env sample_df ''sample.csv'' mem_state)))
      = [[''col1: 0, col2: text_0'', ''col1: 1, col2: '', ''col1: 2, col2: text_2'']]"
    using run em ev_tasks by (simp only: snd_conv)
  have c: "add_calls (trace (snd (add_df_to_db mem_env sample_df ''sample.csv'' mem_state)))
      = [\<lparr>add_ids = [''sample.csv_row0'', ''sample.csv_row1'', ''sample.csv_row2''],
          add_documents = [''col1: 0, col2: text_0'', ''col1: 1, col2: '', ''col1: 2, col2: text_2''],
          add_embeddings = [[21], [15], [21]],
          add_metadatas = [[(''source'', PyStr ''sample.csv''), (''row'', PyInt 0)],
                           [(''source'', PyStr ''sample.csv''), (''row'', PyInt 1)],
                           [(''source'', PyStr ''sample.csv''), (''row'', PyInt 2)]]\<rparr>]"
    using run ad ev_ps by (simp only: snd_conv)
  have d: "chroma_client (snd (add_df_to_db mem_env sample_df ''sample.csv'' mem_state))
      = (0, add_calls (trace (snd (add_df_to_db mem_env sample_df ''sample.csv'' mem_state))))"
    using run cl ad by (simp only: snd_conv)
  from sync a b c d show ?thesis by (intro conjI)
qed

theorem C8_negative_batch_size_commits_nothing_counterexample:
  "length (iterrows sample_df) = 3
   \<and> add_df_to_db_async mem_env sample_df ''sample.csv'' (- 5) mem_state
      = (Inr (), \<lparr>chroma_client = (0, []), collection = 0,
                   trace = [Print (StartingEmbedding 0), Print AllEmbeddingsProcessed,
                            Print (TotalRowsAdded 3 ''sample.csv'')]\<rparr>)
   \<and> add_calls (trace (snd (add_df_to_db_async mem_env sample_df ''sample.csv'' (- 5) mem_state))) = []"
  by code_simp

end
